theory Spec2Isabelle
  imports Main "HOL-Library.Sublist"
begin

section \<open>Python values and exceptions\<close>

text \<open>
  The analysis record is whatever \<^verbatim>\<open>json.load\<close> returns: a JSON document. Numbers are
  the integers the disassembler writes (addresses, indices); JSON floats and booleans do
  not occur in the fields the orchestrator touches and are left out. A JSON object is an
  association list in insertion order, as a Python dict is.
\<close>

datatype json =
    JNull
  | JInt int
  | JStr string
  | JList "json list"
  | JObj "(string \<times> json) list"

text \<open>
  Every exception the modelled code can meet is a value. The argument is the path, key or
  message the Python exception carries.
\<close>

datatype error =
    FileExistsError string
  | FileNotFoundError string
  | NotADirectoryError string
  | IsADirectoryError string
  | SameFileError string
  | KeyError string
  | TypeError string
  | AttributeError string
  | BadGzipFile string
  | CollaboratorError string

text \<open>\<^verbatim>\<open>repr\<close> of a string without quotes or escapes in it: the string in single quotes.\<close>

definition quoted :: "string \<Rightarrow> string" where
  "quoted s = CHR 0x27 # s @ [CHR 0x27]"

text \<open>\<^verbatim>\<open>str(e)\<close>: the message of an exception, as it is appended to the log. An
  \<^verbatim>\<open>OSError\<close> prints its errno, its text and the path; a \<^verbatim>\<open>KeyError\<close> prints the key's
  \<^verbatim>\<open>repr\<close>.\<close>

fun str_of :: "error \<Rightarrow> string" where
  "str_of (FileExistsError p) = ''[Errno 17] File exists: '' @ quoted p"
| "str_of (FileNotFoundError p) = ''[Errno 2] No such file or directory: '' @ quoted p"
| "str_of (NotADirectoryError p) = ''[Errno 20] Not a directory: '' @ quoted p"
| "str_of (IsADirectoryError p) = ''[Errno 21] Is a directory: '' @ quoted p"
| "str_of (SameFileError p) = quoted p @ '' and '' @ quoted p @ '' are the same file''"
| "str_of (KeyError k) = quoted k"
| "str_of (TypeError m) = m"
| "str_of (AttributeError m) = m"
| "str_of (BadGzipFile p) = ''Not a gzipped file: '' @ p"
| "str_of (CollaboratorError m) = m"

text \<open>Sequencing of computations that may raise.\<close>

definition bindE :: "error + 'a \<Rightarrow> ('a \<Rightarrow> error + 'b) \<Rightarrow> error + 'b" where
  "bindE r f = (case r of Inl e \<Rightarrow> Inl e | Inr x \<Rightarrow> f x)"

subsection \<open>The dict, list and str operations the code applies to the record\<close>

text \<open>\<^verbatim>\<open>k in x\<close> for a string \<open>k\<close>: key membership on a dict, element membership on a
  list, substring test on a str, TypeError on None and on an int.\<close>

fun contains :: "json \<Rightarrow> string \<Rightarrow> error + bool" where
  "contains (JObj kvs) k = Inr (map_of kvs k \<noteq> None)"
| "contains (JList xs) k = Inr (JStr k \<in> set xs)"
| "contains (JStr s) k = Inr (sublist k s)"
| "contains JNull k = Inl (TypeError (''argument of type '' @ quoted ''NoneType'' @ '' is not iterable''))"
| "contains (JInt i) k = Inl (TypeError (''argument of type '' @ quoted ''int'' @ '' is not iterable''))"

text \<open>\<^verbatim>\<open>x[k]\<close> for a string \<open>k\<close>: KeyError on a dict without the key, TypeError on
  everything that is not a dict.\<close>

fun getitem :: "json \<Rightarrow> string \<Rightarrow> error + json" where
  "getitem (JObj kvs) k = (case map_of kvs k of None \<Rightarrow> Inl (KeyError k) | Some v \<Rightarrow> Inr v)"
| "getitem (JList xs) k = Inl (TypeError ''list indices must be integers or slices, not str'')"
| "getitem (JStr s) k = Inl (TypeError ''string indices must be integers'')"
| "getitem JNull k = Inl (TypeError (quoted ''NoneType'' @ '' object is not subscriptable''))"
| "getitem (JInt i) k = Inl (TypeError (quoted ''int'' @ '' object is not subscriptable''))"

text \<open>Assignment to a dict key keeps the key's position and appends a new key.\<close>

fun upd :: "string \<Rightarrow> json \<Rightarrow> (string \<times> json) list \<Rightarrow> (string \<times> json) list" where
  "upd k v [] = [(k, v)]"
| "upd k v ((k', v') # kvs) = (if k' = k then (k, v) # kvs else (k', v') # upd k v kvs)"

text \<open>\<^verbatim>\<open>x[k] = v\<close> for a string \<open>k\<close>.\<close>

fun setitem :: "json \<Rightarrow> string \<Rightarrow> json \<Rightarrow> error + json" where
  "setitem (JObj kvs) k v = Inr (JObj (upd k v kvs))"
| "setitem (JList xs) k v = Inl (TypeError ''list indices must be integers or slices, not str'')"
| "setitem (JStr s) k v =
     Inl (TypeError (quoted ''str'' @ '' object does not support item assignment''))"
| "setitem JNull k v =
     Inl (TypeError (quoted ''NoneType'' @ '' object does not support item assignment''))"
| "setitem (JInt i) k v =
     Inl (TypeError (quoted ''int'' @ '' object does not support item assignment''))"

text \<open>Iteration: the elements of a list, the keys of a dict, the characters of a str.\<close>

fun iter :: "json \<Rightarrow> error + json list" where
  "iter (JList xs) = Inr xs"
| "iter (JObj kvs) = Inr (map (\<lambda>kv. JStr (fst kv)) kvs)"
| "iter (JStr s) = Inr (map (\<lambda>c. JStr [c]) s)"
| "iter JNull = Inl (TypeError (quoted ''NoneType'' @ '' object is not iterable''))"
| "iter (JInt i) = Inl (TypeError (quoted ''int'' @ '' object is not iterable''))"

text \<open>Only hashable values are dict keys: lists and dicts raise TypeError, which names
  the type.\<close>

fun hashable :: "json \<Rightarrow> bool" where
  "hashable (JList xs) = False"
| "hashable (JObj kvs) = False"
| "hashable v = True"

fun type_name :: "json \<Rightarrow> string" where
  "type_name JNull = ''NoneType''"
| "type_name (JInt i) = ''int''"
| "type_name (JStr s) = ''str''"
| "type_name (JList xs) = ''list''"
| "type_name (JObj kvs) = ''dict''"

definition unhashable :: "json \<Rightarrow> error" where
  "unhashable v = TypeError (''unhashable type: '' @ quoted (type_name v))"

text \<open>Truthiness of a value, as \<^verbatim>\<open>if res\<close> reads it.\<close>

fun truthy :: "json \<Rightarrow> bool" where
  "truthy JNull = False"
| "truthy (JInt i) = (i \<noteq> 0)"
| "truthy (JStr s) = (s \<noteq> [])"
| "truthy (JList xs) = (xs \<noteq> [])"
| "truthy (JObj kvs) = (kvs \<noteq> [])"

section \<open>The control-flow graph: \<^verbatim>\<open>DisassemblerAbstract._cfg\<close>\<close>

text \<open>
  A leading underscore of a source name is written \<open>u_\<close>.

  \<^verbatim>\<open>blk2ind = {b['addr_start']: ind for ind, b in enumerate(res['blocks'])}\<close>:
  the dict comprehension, one block at a time; a later block with the same address
  overwrites the earlier index.
\<close>

fun blk2ind :: "(nat \<times> json) list \<Rightarrow> (json \<rightharpoonup> nat) \<Rightarrow> error + (json \<rightharpoonup> nat)" where
  "blk2ind [] m = Inr m"
| "blk2ind ((ind, b) # rest) m =
     bindE (getitem b ''addr_start'') (\<lambda>a.
       if hashable a then blk2ind rest (m(a \<mapsto> ind))
       else Inl (unhashable a))"

text \<open>The inner loop \<^verbatim>\<open>for c in b['calls'] if c in blk2ind\<close> of one block \<open>b\<close>, producing
  \<^verbatim>\<open>(blk2ind[b['addr_start']], blk2ind[c])\<close>.\<close>

fun call_edges :: "(json \<rightharpoonup> nat) \<Rightarrow> json \<Rightarrow> json list \<Rightarrow> error + (nat \<times> nat) list" where
  "call_edges m b [] = Inr []"
| "call_edges m b (c # cs) =
     (if \<not> hashable c then Inl (unhashable c)
      else case m c of
        None \<Rightarrow> call_edges m b cs
      | Some tgt \<Rightarrow>
          bindE (getitem b ''addr_start'') (\<lambda>a.
            if \<not> hashable a then Inl (unhashable a)
            else case m a of
              None \<Rightarrow> Inl (KeyError ''addr_start'')
            | Some src \<Rightarrow> bindE (call_edges m b cs) (\<lambda>es. Inr ((src, tgt) # es))))"

text \<open>The outer loop \<^verbatim>\<open>for b in res['blocks']\<close>.\<close>

fun adj_sp :: "(json \<rightharpoonup> nat) \<Rightarrow> json list \<Rightarrow> error + (nat \<times> nat) list" where
  "adj_sp m [] = Inr []"
| "adj_sp m (b # bs) =
     bindE (getitem b ''calls'') (\<lambda>cs.
     bindE (iter cs) (\<lambda>cl.
     bindE (call_edges m b cl) (\<lambda>es.
     bindE (adj_sp m bs) (\<lambda>rest. Inr (es @ rest)))))"

text \<open>An edge list as the record holds it (a tuple is a JSON array).\<close>

definition enc_edges :: "(nat \<times> nat) list \<Rightarrow> json" where
  "enc_edges es = JList (map (\<lambda>e. JList [JInt (int (fst e)), JInt (int (snd e))]) es)"

definition u_cfg :: "json \<Rightarrow> error + json" where
  "u_cfg res =
     bindE (getitem res ''blocks'') (\<lambda>bl.
     bindE (iter bl) (\<lambda>bs.
     bindE (blk2ind (enumerate 0 bs) Map.empty) (\<lambda>m.
     bindE (getitem res ''blocks'') (\<lambda>bl2.
     bindE (iter bl2) (\<lambda>bs2.
     bindE (adj_sp m bs2) (\<lambda>es.
     setitem res ''cfg'' (enc_edges es)))))))"

subsection \<open>The CFG as the specification words it\<close>





section \<open>The world the orchestrator acts on\<close>

text \<open>
  A file holds opaque bytes or a gzip-compressed JSON document, written as the document it
  decodes to. The file system maps a path, as the string the code passes to \<^verbatim>\<open>os\<close>, to
  the node there (no symbolic links, no normalisation of paths, no permissions).
\<close>

datatype content = Bytes string | GzJson json

datatype node = File content | Dir

text \<open>What the code does to the outside, in order: the calls of the collaborators, the
  deletions and the writes of the cache file, the lines printed and logged.\<close>

datatype event =
    Invoked string string string bool
  | Analyzed string int
  | Dumped string json
  | Printed "string list"
  | Removed string
  | Requested "string option"
  | Warned string
  | Fetched "string option" string
  | Unpacked string string bool

record world =
  fs :: "string \<rightharpoonup> node"
  trace :: "event list"

text \<open>A computation runs on the world and returns a value or raises, leaving the world as
  it was at that moment.\<close>

type_synonym 'a comp = "world \<Rightarrow> (error + 'a) \<times> world"

definition ret :: "'a \<Rightarrow> 'a comp" where
  "ret x = (\<lambda>w. (Inr x, w))"

definition raise :: "error \<Rightarrow> 'a comp" where
  "raise e = (\<lambda>w. (Inl e, w))"

definition bind :: "'a comp \<Rightarrow> ('a \<Rightarrow> 'b comp) \<Rightarrow> 'b comp" where
  "bind m f = (\<lambda>w. case m w of (Inl e, w') \<Rightarrow> (Inl e, w') | (Inr x, w') \<Rightarrow> f x w')"

text \<open>A pure computation that may raise, run inside the world.\<close>

definition lift :: "error + 'a \<Rightarrow> 'a comp" where
  "lift r = (\<lambda>w. (r, w))"

text \<open>\<^verbatim>\<open>try: m except Exception as e: h e\<close>.\<close>

definition try_except :: "'a comp \<Rightarrow> (error \<Rightarrow> 'a comp) \<Rightarrow> 'a comp" where
  "try_except m h = (\<lambda>w. case m w of (Inl e, w') \<Rightarrow> h e w' | (Inr x, w') \<Rightarrow> (Inr x, w'))"

text \<open>\<^verbatim>\<open>try: m finally: c\<close>: \<open>c\<close> runs on every exit of \<open>m\<close>; an exception of \<open>c\<close>
  replaces the outcome of \<open>m\<close>, a return value as much as an exception.\<close>

definition try_finally :: "'a comp \<Rightarrow> unit comp \<Rightarrow> 'a comp" where
  "try_finally m c =
     (\<lambda>w. case m w of (r, w') \<Rightarrow> (case c w' of (Inl e, w'') \<Rightarrow> (Inl e, w'') | (Inr u, w'') \<Rightarrow> (r, w'')))"

definition emit :: "event \<Rightarrow> unit comp" where
  "emit ev = (\<lambda>w. (Inr (), w\<lparr>trace := trace w @ [ev]\<rparr>))"

subsection \<open>Paths (\<^verbatim>\<open>os.path\<close>, POSIX)\<close>

definition basename :: "string \<Rightarrow> string" where
  "basename p = rev (takeWhile (\<lambda>c. c \<noteq> CHR ''/'') (rev p))"

definition dirname :: "string \<Rightarrow> string" where
  "dirname p =
     (let head = rev (dropWhile (\<lambda>c. c \<noteq> CHR ''/'') (rev p))
      in if head \<noteq> [] \<and> \<not> list_all (\<lambda>c. c = CHR ''/'') head
         then rev (dropWhile (\<lambda>c. c = CHR ''/'') (rev head)) else head)"

definition join :: "string \<Rightarrow> string \<Rightarrow> string" where
  "join a b =
     (if b \<noteq> [] \<and> hd b = CHR ''/'' then b
      else if a = [] \<or> last a = CHR ''/'' then a @ b
      else a @ ''/'' @ b)"

subsection \<open>Files and directories (\<^verbatim>\<open>os\<close>, \<^verbatim>\<open>shutil\<close>)\<close>

definition os_exists :: "world \<Rightarrow> string \<Rightarrow> bool" where
  "os_exists w p = (fs w p \<noteq> None)"

text \<open>A new entry needs its parent directory: the working directory and the root always
  exist, any other parent has to be a directory of the file system.\<close>

definition parent_ok :: "(string \<rightharpoonup> node) \<Rightarrow> string \<Rightarrow> bool" where
  "parent_ok F p =
     (let d = dirname p in d = [] \<or> list_all (\<lambda>c. c = CHR ''/'') d \<or> F d = Some Dir)"

text \<open>Without it the call raises: NotADirectoryError when a regular file stands where
  the parent should be, FileNotFoundError when nothing does.\<close>

definition parent_error :: "(string \<rightharpoonup> node) \<Rightarrow> string \<Rightarrow> error" where
  "parent_error F p =
     (case F (dirname p) of
        Some (File c) \<Rightarrow> NotADirectoryError p
      | _ \<Rightarrow> FileNotFoundError p)"

definition os_mkdir :: "string \<Rightarrow> unit comp" where
  "os_mkdir p =
     (\<lambda>w. if fs w p \<noteq> None then (Inl (FileExistsError p), w)
          else if parent_ok (fs w) p then (Inr (), w\<lparr>fs := (fs w)(p \<mapsto> Dir)\<rparr>)
          else (Inl (parent_error (fs w) p), w))"

definition copyfile :: "string \<Rightarrow> string \<Rightarrow> unit comp" where
  "copyfile src dst =
     (\<lambda>w. if src = dst \<and> fs w src \<noteq> None then (Inl (SameFileError src), w)
          else case fs w src of
            None \<Rightarrow> (Inl (FileNotFoundError src), w)
          | Some Dir \<Rightarrow> (Inl (IsADirectoryError src), w)
          | Some (File c) \<Rightarrow>
              (case fs w dst of
                 Some Dir \<Rightarrow> (Inl (IsADirectoryError dst), w)
               | Some (File old) \<Rightarrow> (Inr (), w\<lparr>fs := (fs w)(dst \<mapsto> File c)\<rparr>)
               | None \<Rightarrow>
                   if parent_ok (fs w) dst then (Inr (), w\<lparr>fs := (fs w)(dst \<mapsto> File c)\<rparr>)
                   else (Inl (parent_error (fs w) dst), w)))"

text \<open>\<^verbatim>\<open>shutil.rmtree\<close> removes a directory and everything below it; on a regular file
  and on a missing path it raises.\<close>

definition rmtree :: "string \<Rightarrow> unit comp" where
  "rmtree p =
     (\<lambda>w. case fs w p of
            None \<Rightarrow> (Inl (FileNotFoundError p), w)
          | Some (File c) \<Rightarrow> (Inl (NotADirectoryError p), w)
          | Some Dir \<Rightarrow>
              (Inr (), w\<lparr>fs := (\<lambda>q. if q = p \<or> prefix (p @ ''/'') q then None else fs w q),
                        trace := trace w @ [Removed p]\<rparr>))"

definition os_remove :: "string \<Rightarrow> unit comp" where
  "os_remove p =
     (\<lambda>w. case fs w p of
            None \<Rightarrow> (Inl (FileNotFoundError p), w)
          | Some Dir \<Rightarrow> (Inl (IsADirectoryError p), w)
          | Some (File c) \<Rightarrow> (Inr (), w\<lparr>fs := (fs w)(p := None), trace := trace w @ [Removed p]\<rparr>))"

text \<open>
  Modelled from the spec: \<^verbatim>\<open>read_gz_js\<close> of \<^verbatim>\<open>jvd.utils\<close> is not among the sources. The
  ResultStore's read decompresses and parses the file and fails when the content is not
  valid compressed structured data.
\<close>

definition read_gz_js :: "string \<Rightarrow> json comp" where
  "read_gz_js p =
     (\<lambda>w. case fs w p of
            None \<Rightarrow> (Inl (FileNotFoundError p), w)
          | Some Dir \<Rightarrow> (Inl (IsADirectoryError p), w)
          | Some (File (Bytes b)) \<Rightarrow> (Inl (BadGzipFile p), w)
          | Some (File (GzJson j)) \<Rightarrow> (Inr j, w))"

text \<open>\<^verbatim>\<open>json.dumps(res).encode('utf-8')\<close> written through \<^verbatim>\<open>gzip.GzipFile(js_file, 'w')\<close>:
  the file is replaced by the serialised record.\<close>

definition gzip_dump :: "string \<Rightarrow> json \<Rightarrow> unit comp" where
  "gzip_dump p res =
     (\<lambda>w. case fs w p of
            Some Dir \<Rightarrow> (Inl (IsADirectoryError p), w)
          | Some (File old) \<Rightarrow>
              (Inr (), w\<lparr>fs := (fs w)(p \<mapsto> File (GzJson res)), trace := trace w @ [Dumped p res]\<rparr>)
          | None \<Rightarrow>
              if parent_ok (fs w) p
              then (Inr (), w\<lparr>fs := (fs w)(p \<mapsto> File (GzJson res)), trace := trace w @ [Dumped p res]\<rparr>)
              else (Inl (parent_error (fs w) p), w))"

section \<open>The orchestrator: \<^verbatim>\<open>DisassemblerAbstract\<close>\<close>

text \<open>
  The collaborators the orchestrator consumes and the sources do not define: file-type
  sniffing, the backend \<^verbatim>\<open>_process\<close> (abstract in the class) and the capability tagger.
  Each may raise. By its contract the backend reads its private copy and writes its result
  to \<open>output_file_path\<close>: it returns its log entries and the content it wrote there, if
  any. \<^verbatim>\<open>grep_ext\<close> and \<^verbatim>\<open>m_map\<close> (both of \<^verbatim>\<open>jvd.utils\<close>) serve the batch driver:
  \<^verbatim>\<open>m_map\<close> is a generator, so its value is the items it yields and the exception that
  ends it, if one does.
\<close>

datatype result = RNone | RPath string | RRecord json

record env =
  get_file_type :: "(string \<rightharpoonup> node) \<Rightarrow> string \<Rightarrow> error + string"
  u_process :: "(string \<rightharpoonup> node) \<Rightarrow> string \<Rightarrow> string \<Rightarrow> string \<Rightarrow> bool
                  \<Rightarrow> error + (string list \<times> content option)"
  capa_analyze :: "(string \<rightharpoonup> node) \<Rightarrow> json \<Rightarrow> string \<Rightarrow> int \<Rightarrow> error + json"
  grep_ext :: "(string \<rightharpoonup> node) \<Rightarrow> string \<Rightarrow> string \<Rightarrow> error + string list"
  m_map :: "(string \<Rightarrow> (result \<times> string list) comp) \<Rightarrow> string list
              \<Rightarrow> world \<Rightarrow> ((nat \<times> result \<times> string list) list \<times> error option) \<times> world"

text \<open>The call \<^verbatim>\<open>self._process(new_file, file_type, output_file_path=..., decompile=...)\<close>.\<close>

definition call_process :: "env \<Rightarrow> string \<Rightarrow> string \<Rightarrow> string \<Rightarrow> bool \<Rightarrow> string list comp" where
  "call_process E new_file file_type out decompile =
     bind (emit (Invoked new_file file_type out decompile)) (\<lambda>u.
       (\<lambda>w. case u_process E (fs w) new_file file_type out decompile of
              Inl e \<Rightarrow> (Inl e, w)
            | Inr (out_log, None) \<Rightarrow> (Inr out_log, w)
            | Inr (out_log, Some c) \<Rightarrow> (Inr out_log, w\<lparr>fs := (fs w)(out \<mapsto> File c)\<rparr>)))"

definition call_capa :: "env \<Rightarrow> json \<Rightarrow> string \<Rightarrow> int \<Rightarrow> json comp" where
  "call_capa E res file verbose =
     bind (emit (Analyzed file verbose)) (\<lambda>u.
       (\<lambda>w. (capa_analyze E (fs w) res file verbose, w)))"

text \<open>\<^verbatim>\<open>cleanup(self, file)\<close>, lines 117 to 121.\<close>

definition cleanup :: "string \<Rightarrow> unit comp" where
  "cleanup file =
     (let js_file = file @ ''.asm.json.gz''
      in (\<lambda>w. if os_exists w js_file then os_remove js_file w else (Inr (), w)))"

text \<open>
  The body of the first \<^verbatim>\<open>try\<close> of \<^verbatim>\<open>disassemble\<close>, lines 46 to 57: the workspace. The
  result of \<^verbatim>\<open>_process\<close> is bound to \<open>out_log\<close>; the line after extends \<open>log\<close> by \<open>log\<close>.
  The value is the log afterwards.
\<close>

definition workspace ::
  "env \<Rightarrow> string \<Rightarrow> string \<Rightarrow> bool \<Rightarrow> string \<Rightarrow> string \<Rightarrow> string list \<Rightarrow> string list comp" where
  "workspace E file file_type decompile js_file tmp_folder log =
     bind (os_mkdir tmp_folder) (\<lambda>u.
     let new_file = join tmp_folder (basename file);
         new_file_js = join tmp_folder (basename js_file)
     in bind (copyfile file new_file) (\<lambda>u.
        bind (call_process E new_file file_type new_file_js decompile) (\<lambda>out_log.
        bind (copyfile new_file_js js_file) (\<lambda>u.
        ret (log @ log)))))"

text \<open>How a block of the function ends: by \<^verbatim>\<open>return\<close>, or by falling through to the
  next statement with the log so far.\<close>

datatype flow = Return "result \<times> string list" | Fall "string list"

text \<open>The first \<^verbatim>\<open>try\<close> statement, lines 44 to 65, with its handler and its
  \<^verbatim>\<open>finally\<close>.\<close>

definition invoke ::
  "env \<Rightarrow> string \<Rightarrow> string \<Rightarrow> bool \<Rightarrow> int \<Rightarrow> string \<Rightarrow> string \<Rightarrow> string list \<Rightarrow> flow comp" where
  "invoke E file file_type decompile verbose additional_ext js_file log =
     (let tmp_folder = file @ additional_ext @ ''.tmp''
      in try_finally
           (try_except
              (bind (workspace E file file_type decompile js_file tmp_folder log)
                 (\<lambda>log'. ret (Fall log')))
              (\<lambda>e. let log' = log @ [str_of e]
                    in if verbose > 1 then raise e else ret (Return (RNone, log'))))
           (rmtree tmp_folder))"

text \<open>The body of the second \<^verbatim>\<open>try\<close>, lines 68 to 88: read the cache file, augment the
  record, write it back when \<open>changed\<close>, and return.\<close>

definition set_f_type :: "json \<Rightarrow> string \<Rightarrow> error + json \<times> bool" where
  "set_f_type res file_type =
     bindE (contains res ''f_type'') (\<lambda>present.
       if \<not> present
       then bindE (getitem res ''bin'') (\<lambda>b.
            bindE (setitem b ''f_type'' (JStr file_type)) (\<lambda>b'.
            bindE (setitem res ''bin'' b') (\<lambda>res'. Inr (res', True))))
       else Inr (res, False))"

definition set_cfg :: "bool \<Rightarrow> json \<times> bool \<Rightarrow> error + json \<times> bool" where
  "set_cfg cfg rc =
     (if cfg
      then bindE (contains (fst rc) ''cfg'') (\<lambda>present.
             if \<not> present then bindE (u_cfg (fst rc)) (\<lambda>res'. Inr (res', True))
             else Inr rc)
      else Inr rc)"

definition set_capa :: "env \<Rightarrow> bool \<Rightarrow> string \<Rightarrow> int \<Rightarrow> json \<times> bool \<Rightarrow> (json \<times> bool) comp" where
  "set_capa E capa file verbose rc =
     (if capa
      then bind (lift (contains (fst rc) ''capa'')) (\<lambda>present.
             if \<not> present
             then bind (call_capa E (fst rc) file verbose) (\<lambda>v.
                  bind (lift (setitem (fst rc) ''capa'' v)) (\<lambda>res'. ret (res', True)))
             else ret rc)
      else ret rc)"

definition augment ::
  "env \<Rightarrow> string \<Rightarrow> bool \<Rightarrow> bool \<Rightarrow> string \<Rightarrow> bool \<Rightarrow> int \<Rightarrow> string \<Rightarrow> string list
     \<Rightarrow> (result \<times> string list) comp" where
  "augment E file cfg no_result file_type capa verbose js_file log =
     bind (read_gz_js js_file) (\<lambda>res.
     bind (lift (set_f_type res file_type)) (\<lambda>rc1.
     bind (lift (set_cfg cfg rc1)) (\<lambda>rc2.
     bind (set_capa E capa file verbose rc2) (\<lambda>rc3.
     bind (if snd rc3 then gzip_dump js_file (fst rc3) else ret ()) (\<lambda>u.
     if no_result then ret (if truthy (fst rc3) then RPath js_file else RNone, log)
     else ret (RRecord (fst rc3), log))))))"

text \<open>The second \<^verbatim>\<open>try\<close> statement, lines 67 to 100.\<close>

definition load ::
  "env \<Rightarrow> string \<Rightarrow> bool \<Rightarrow> bool \<Rightarrow> bool \<Rightarrow> string \<Rightarrow> bool \<Rightarrow> int \<Rightarrow> string \<Rightarrow> string list
     \<Rightarrow> (result \<times> string list) comp" where
  "load E file cleanup_flag cfg no_result file_type capa verbose js_file log =
     try_finally
       (try_except
          (augment E file cfg no_result file_type capa verbose js_file log)
          (\<lambda>e. let log' = log @ [''Failed '' @ file @ '' msg: '' @ str_of e]
                in if verbose > 1 then bind (emit (Printed log')) (\<lambda>u. raise e)
                   else ret (RNone, log')))
       (try_except (if cleanup_flag then cleanup file else ret ()) (\<lambda>e. ret ()))"

text \<open>
  \<^verbatim>\<open>disassemble(self, file, decompile, cleanup, cfg, no_result, file_type, capa, verbose,
  additional_ext)\<close>, lines 33 to 100. \<open>file_type\<close> is \<open>None\<close> or a string; \<open>None\<close> and the
  empty string are falsy and make the code sniff the type.
\<close>

definition disassemble ::
  "env \<Rightarrow> string \<Rightarrow> bool \<Rightarrow> bool \<Rightarrow> bool \<Rightarrow> bool \<Rightarrow> string option \<Rightarrow> bool \<Rightarrow> int \<Rightarrow> string
     \<Rightarrow> (result \<times> string list) comp" where
  "disassemble E file decompile cleanup_flag cfg no_result file_type capa verbose additional_ext =
     (let js_file = file @ additional_ext @ ''.asm.json.gz''
      in bind (case file_type of
                 None \<Rightarrow> (\<lambda>w. (get_file_type E (fs w) file, w))
               | Some t \<Rightarrow> if t \<noteq> [] then ret t else (\<lambda>w. (get_file_type E (fs w) file, w)))
           (\<lambda>ft w.
              if os_exists w js_file
              then load E file cleanup_flag cfg no_result ft capa verbose js_file
                     [''directly reading the generated json file''] w
              else bind (invoke E file ft decompile verbose additional_ext js_file [])
                     (\<lambda>fl. case fl of
                        Return r \<Rightarrow> ret r
                      | Fall log \<Rightarrow>
                          load E file cleanup_flag cfg no_result ft capa verbose js_file log) w))"

subsection \<open>The batch driver: \<^verbatim>\<open>disassemble_all\<close>\<close>

datatype target = Folder string | Files "string list"

text \<open>The consumer loop, lines 161 to 164, on one item and on the items of a generator.\<close>

definition report :: "result \<times> string list \<Rightarrow> unit comp" where
  "report extracted = (if fst extracted = RNone then emit (Printed (snd extracted)) else ret ())"

fun report_all :: "(nat \<times> result \<times> string list) list \<Rightarrow> unit comp" where
  "report_all [] = ret ()"
| "report_all (item # items) = bind (report (snd item)) (\<lambda>u. report_all items)"

text \<open>The sequential branch of \<^verbatim>\<open>gen\<close>, lines 155 to 159, consumed item by item: the
  generator is lazy, so each file is reported before the next one is disassembled.\<close>

fun gen_seq :: "env \<Rightarrow> bool \<Rightarrow> bool \<Rightarrow> bool \<Rightarrow> bool \<Rightarrow> int \<Rightarrow> string list \<Rightarrow> unit comp" where
  "gen_seq E decompile cleanup_flag cfg capa verbose [] = ret ()"
| "gen_seq E decompile cleanup_flag cfg capa verbose (f # files) =
     bind (disassemble E f decompile cleanup_flag cfg True None capa verbose [])
       (\<lambda>extracted. bind (report extracted)
       (\<lambda>u. gen_seq E decompile cleanup_flag cfg capa verbose files))"

text \<open>What \<^verbatim>\<open>e.map()\<close> raises at line 152: \<^verbatim>\<open>ProcessPoolExecutor.map\<close> is called without its
  required argument \<open>fn\<close>.\<close>

definition map_without_fn :: error where
  "map_without_fn =
     TypeError (''ProcessPoolExecutor.map() missing 1 required positional argument: ''
                @ quoted ''fn'')"

text \<open>The multiprocessing branch, lines 144 to 153: the items of \<^verbatim>\<open>m_map\<close>, then
  \<^verbatim>\<open>e.map()\<close>. The items are reported once \<^verbatim>\<open>m_map\<close> has run; in the source the consumer
  prints between them, so the place of a printed log among the other events is the
  model's.\<close>

definition gen_mp :: "env \<Rightarrow> bool \<Rightarrow> bool \<Rightarrow> bool \<Rightarrow> bool \<Rightarrow> int \<Rightarrow> string list \<Rightarrow> unit comp" where
  "gen_mp E decompile cleanup_flag cfg capa verbose files =
     (\<lambda>w. case m_map E (\<lambda>f. disassemble E f decompile cleanup_flag cfg True None capa verbose [])
                  files w of
            ((items, err), w') \<Rightarrow>
              bind (report_all items) (\<lambda>u.
                case err of
                  Some e \<Rightarrow> raise e
                | None \<Rightarrow> raise map_without_fn) w')"

definition disassemble_all ::
  "env \<Rightarrow> target \<Rightarrow> bool \<Rightarrow> bool \<Rightarrow> bool \<Rightarrow> bool \<Rightarrow> string \<Rightarrow> bool \<Rightarrow> int \<Rightarrow> unit comp" where
  "disassemble_all E path_or_files multiprocessing decompile cleanup_flag cfg file_ext capa verbose =
     bind (case path_or_files of
             Folder p \<Rightarrow> (\<lambda>w. (grep_ext E (fs w) p file_ext, w))
           | Files fl \<Rightarrow> ret fl)
       (\<lambda>files. if multiprocessing then gen_mp E decompile cleanup_flag cfg capa verbose files
                 else gen_seq E decompile cleanup_flag cfg capa verbose files)"

text \<open>
  Modelled from the spec: \<^verbatim>\<open>m_map\<close> of \<^verbatim>\<open>jvd.utils\<close> is not among the sources. The
  parallel driver runs the function over every file and yields \<open>(index, result)\<close> pairs; a
  file whose call raises ends the stream with that exception. The workers' effects are
  taken one file after the other.
\<close>

fun m_map_spec ::
  "nat \<Rightarrow> (string \<Rightarrow> (result \<times> string list) comp) \<Rightarrow> string list
     \<Rightarrow> world \<Rightarrow> ((nat \<times> result \<times> string list) list \<times> error option) \<times> world" where
  "m_map_spec i f [] w = (([], None), w)"
| "m_map_spec i f (x # xs) w =
     (case f x w of
        (Inl e, w') \<Rightarrow> (([], Some e), w')
      | (Inr r, w') \<Rightarrow>
          (case m_map_spec (Suc i) f xs w' of
             ((items, err), w'') \<Rightarrow> (((i, r) # items, err), w'')))"

section \<open>The resource cache: \<^verbatim>\<open>ResourceAbstract\<close>\<close>

text \<open>A resource kind: the class name and the attributes its constructor sets.\<close>

record resource =
  name :: string
  linux :: "string option"
  windows :: "string option"
  darwin :: "string option"
  default :: "string option"
  unpack :: bool
  check_update :: bool
  with_permission :: bool

text \<open>
  What the module reads from outside: the class attribute \<open>home\<close>, the module-level flag
  \<open>online\<close> (computed once at import), \<^verbatim>\<open>platform.system()\<close>, the server's answer to
  \<^verbatim>\<open>urlopen(url).info()['Last-Modified']\<close> (the header may be absent), the parse of that
  header as an instant (\<^verbatim>\<open>strptime\<close> and \<^verbatim>\<open>pytz.utc.localize\<close>), the modification time of
  a file as an instant, and the helpers of \<^verbatim>\<open>jvd.utils\<close> and \<^verbatim>\<open>shutil\<close> that name, fetch
  and extract a download. Instants are microseconds since the epoch, the resolution
  of \<^verbatim>\<open>datetime\<close>; two aware datetimes compare as their instants do.
\<close>

record net =
  home :: string
  online :: bool
  system :: string
  last_modified :: "string option \<Rightarrow> error + string option"
  strptime :: "string option \<Rightarrow> error + int"
  getmtime :: "(string \<rightharpoonup> node) \<Rightarrow> string \<Rightarrow> error + int"
  fn_from_url :: "string option \<Rightarrow> error + string"
  download_file :: "string option \<Rightarrow> error + content"
  unpack_archive :: "bool \<Rightarrow> content \<Rightarrow> error + unit"

text \<open>\<^verbatim>\<open>str.lower()\<close> on ASCII names.\<close>

definition lower_char :: "char \<Rightarrow> char" where
  "lower_char c =
     (case map_of (zip ''ABCDEFGHIJKLMNOPQRSTUVWXYZ'' ''abcdefghijklmnopqrstuvwxyz'') c of
        None \<Rightarrow> c | Some l \<Rightarrow> l)"

definition lower :: "string \<Rightarrow> string" where
  "lower s = map lower_char s"

text \<open>The proper ancestors of a path, shortest first: the prefixes that end before a
  slash.\<close>

fun ancestors :: "string \<Rightarrow> string \<Rightarrow> string list" where
  "ancestors acc [] = []"
| "ancestors acc (c # cs) =
     (if c = CHR ''/'' \<and> acc \<noteq> [] \<and> last acc \<noteq> CHR ''/'' then [acc] else [])
     @ ancestors (acc @ [c]) cs"

text \<open>Along a chain of paths, each the parent of the next: the first path whose parent
  is a regular file, which is the directory \<^verbatim>\<open>os.makedirs\<close> cannot create.\<close>

fun below_file :: "(string \<rightharpoonup> node) \<Rightarrow> string list \<Rightarrow> string option" where
  "below_file F (a # b # chain) =
     (case F a of Some (File c) \<Rightarrow> Some b | _ \<Rightarrow> below_file F (b # chain))"
| "below_file F chain = None"

text \<open>\<^verbatim>\<open>os.makedirs(p)\<close> creates \<open>p\<close> and the ancestors it lacks; it raises when \<open>p\<close>
  exists and when an ancestor is a regular file.\<close>

definition makedirs :: "string \<Rightarrow> unit comp" where
  "makedirs p =
     (\<lambda>w. if fs w p \<noteq> None then (Inl (FileExistsError p), w)
          else case below_file (fs w) (ancestors [] p @ [p]) of
            Some b \<Rightarrow> (Inl (NotADirectoryError b), w)
          | None \<Rightarrow>
              (Inr (), w\<lparr>fs := (\<lambda>q. if q = p \<or> q \<in> set (ancestors [] p) then Some Dir else fs w q)\<rparr>))"

text \<open>The comparison inside the \<^verbatim>\<open>try\<close> of the update check, lines 65 to 80: the
  server's \<open>Last-Modified\<close> against the local modification time.\<close>

definition remote_newer :: "net \<Rightarrow> string option \<Rightarrow> string \<Rightarrow> (string \<rightharpoonup> node) \<Rightarrow> error + bool" where
  "remote_newer N url file F =
     bindE (last_modified N url) (\<lambda>url_time.
     bindE (strptime N url_time) (\<lambda>url_date.
     bindE (getmtime N F file) (\<lambda>file_time.
     Inr (url_date > file_time))))"

text \<open>The line \<^verbatim>\<open>log.warn\<close> writes for an exception of the check.\<close>

definition warning :: "error \<Rightarrow> string" where
  "warning e = ''Library '' @ str_of e @ '' would like to check for updates but failed''"

text \<open>The update check of \<^verbatim>\<open>_download\<close>, lines 64 to 84: the value is the new
  \<open>download\<close> flag. The handler logs a warning and leaves the flag as it was, \<open>False\<close>.\<close>

definition update_check :: "net \<Rightarrow> string option \<Rightarrow> string \<Rightarrow> bool comp" where
  "update_check N url file =
     try_except
       (bind (emit (Requested url)) (\<lambda>u w. (remote_newer N url file (fs w), w)))
       (\<lambda>e. bind (emit (Warned (warning e))) (\<lambda>u. ret False))"

text \<open>The transfer, lines 86 to 91.\<close>

definition transfer :: "net \<Rightarrow> string option \<Rightarrow> string \<Rightarrow> string \<Rightarrow> unit comp" where
  "transfer N url file file_unpack =
     bind (\<lambda>w. if os_exists w file then os_remove file w else (Inr (), w)) (\<lambda>u.
     bind (\<lambda>w. if os_exists w file_unpack then rmtree file_unpack w else (Inr (), w)) (\<lambda>u.
     bind (emit (Fetched url file)) (\<lambda>u.
     bind (lift (download_file N url)) (\<lambda>c.
       (\<lambda>w. (Inr (), w\<lparr>fs := (fs w)(file \<mapsto> File c)\<rparr>))))))"

text \<open>The extraction, lines 94 to 98: \<^verbatim>\<open>unzip_with_permission\<close> or \<^verbatim>\<open>unpack_archive\<close>
  reads the archive and creates the directory.\<close>

definition unpack_to :: "net \<Rightarrow> bool \<Rightarrow> string \<Rightarrow> string \<Rightarrow> unit comp" where
  "unpack_to N perm file file_unpack =
     bind (emit (Unpacked file file_unpack perm)) (\<lambda>u.
       (\<lambda>w. case fs w file of
              None \<Rightarrow> (Inl (FileNotFoundError file), w)
            | Some Dir \<Rightarrow> (Inl (IsADirectoryError file), w)
            | Some (File c) \<Rightarrow>
                (case unpack_archive N perm c of
                   Inl e \<Rightarrow> (Inl e, w)
                 | Inr u \<Rightarrow> (Inr (), w\<lparr>fs := (fs w)(file_unpack \<mapsto> Dir)\<rparr>))))"

text \<open>The last statement, lines 93 to 101: extract if asked and not yet done, and return
  the path.\<close>

definition unpacking :: "net \<Rightarrow> resource \<Rightarrow> bool \<Rightarrow> string \<Rightarrow> string \<Rightarrow> string comp" where
  "unpacking N R unpack_if_needed file file_unpack =
     (if unpack R \<and> unpack_if_needed
      then bind (\<lambda>w. if \<not> os_exists w file_unpack
                     then unpack_to N (with_permission R) file file_unpack w
                     else (Inr (), w)) (\<lambda>u. ret file_unpack)
      else ret file)"

text \<open>The target folder, lines 48 to 52, and the file name, lines 55 and 56: \<open>not file\<close>
  holds of \<open>None\<close> and of the empty string.\<close>

definition folder_of :: "net \<Rightarrow> resource \<Rightarrow> string option \<Rightarrow> string" where
  "folder_of N R home_arg =
     join (case home_arg of None \<Rightarrow> home N | Some h \<Rightarrow> h) (lower (name R))"

definition name_of :: "net \<Rightarrow> string option \<Rightarrow> string option \<Rightarrow> error + string" where
  "name_of N url file_arg =
     (case file_arg of
        None \<Rightarrow> fn_from_url N url
      | Some f \<Rightarrow> if f = [] then fn_from_url N url else Inr f)"

text \<open>Lines 53 and 54: the folder is created when it is not there.\<close>

definition ensure_folder :: "string \<Rightarrow> unit comp" where
  "ensure_folder folder = (\<lambda>w. if \<not> os_exists w folder then makedirs folder w else (Inr (), w))"

text \<open>\<^verbatim>\<open>_download(self, url, show_progress, unpack_if_needed, home=None, file=None)\<close>,
  lines 47 to 101.\<close>

definition u_download ::
  "net \<Rightarrow> resource \<Rightarrow> string option \<Rightarrow> bool \<Rightarrow> bool \<Rightarrow> string option \<Rightarrow> string option
     \<Rightarrow> string comp" where
  "u_download N R url show_progress unpack_if_needed home_arg file_arg =
     (let folder = folder_of N R home_arg
      in bind (ensure_folder folder) (\<lambda>u.
         bind (lift (name_of N url file_arg)) (\<lambda>fname.
         let file = join folder fname;
             file_unpack = file @ ''_unpacked''
         in bind (\<lambda>w. (Inr (\<not> os_exists w file), w)) (\<lambda>download.
            bind (if \<not> download \<and> check_update R \<and> online N
                  then update_check N url file else ret download) (\<lambda>download.
            bind (if download then transfer N url file file_unpack else ret ()) (\<lambda>u.
            unpacking N R unpack_if_needed file file_unpack))))))"

text \<open>\<^verbatim>\<open>getattr(self, platform.system().lower())\<close>: the three platform attributes; any
  other system name is not an attribute holding a URL and raises.\<close>

definition platform_url :: "resource \<Rightarrow> string \<Rightarrow> error + string option" where
  "platform_url R s =
     (if s = ''linux'' then Inr (linux R)
      else if s = ''windows'' then Inr (windows R)
      else if s = ''darwin'' then Inr (darwin R)
      else Inl (AttributeError
             (quoted (name R) @ '' object has no attribute '' @ quoted s)))"

text \<open>A URL attribute is falsy when it is \<open>None\<close> or the empty string.\<close>

definition is_set :: "string option \<Rightarrow> bool" where
  "is_set u = (case u of None \<Rightarrow> False | Some s \<Rightarrow> s \<noteq> [])"

text \<open>\<^verbatim>\<open>get(self)\<close>, lines 42 to 45.\<close>

definition get :: "net \<Rightarrow> resource \<Rightarrow> string comp" where
  "get N R =
     bind (lift (platform_url R (lower (system N)))) (\<lambda>url.
     let url = (if \<not> is_set url then default R else url)
     in u_download N R url True True None None)"



text \<open>\<^verbatim>\<open>require(library)\<close>, lines 121 to 125, over the subclasses of \<^verbatim>\<open>ResourceAbstract\<close> in
  the order \<^verbatim>\<open>__subclasses__()\<close> lists them. A loop that finds no match falls off the end
  of the function, which returns \<open>None\<close>.\<close>

fun require :: "net \<Rightarrow> resource list \<Rightarrow> string \<Rightarrow> string option comp" where
  "require N [] library = ret None"
| "require N (res # rest) library =
     (if lower (name res) = lower library then bind (get N res) (\<lambda>p. ret (Some p))
      else require N rest library)"

section \<open>Observations\<close>

text \<open>The events a call added to the trace.\<close>

definition new_events :: "world \<Rightarrow> world \<Rightarrow> event list" where
  "new_events w w' = drop (length (trace w)) (trace w')"

text \<open>The path holds a regular file.\<close>

definition is_regular :: "world \<Rightarrow> string \<Rightarrow> bool" where
  "is_regular w p = (case fs w p of Some (File c) \<Rightarrow> True | _ \<Rightarrow> False)"

text \<open>A computation that, from every world, only appends events of one kind.\<close>

definition adds :: "(event \<Rightarrow> bool) \<Rightarrow> 'a comp \<Rightarrow> bool" where
  "adds P m = (\<forall>w. \<exists>evs. trace (snd (m w)) = trace w @ evs \<and> list_all P evs)"

fun is_invoked :: "event \<Rightarrow> bool" where
  "is_invoked (Invoked new_file file_type out decompile) = True"
| "is_invoked ev = False"





subsection \<open>A sample installation\<close>


text \<open>A record as a backend writes it, with \<open>f_type\<close> on the binary metadata.\<close>

definition sample_record :: json where
  "sample_record = JObj [(''bin'', JObj [(''f_type'', JStr ''elf'')]), (''blocks'', JList [])]"

text \<open>A backend that fails on \<open>bad.bin\<close> and otherwise writes \<open>sample_record\<close> and returns
  one log entry; the batch helper is the one modelled from the specification.\<close>

definition sample_env :: env where
  "sample_env =
     \<lparr>get_file_type = (\<lambda>F p. Inr ''elf''),
      u_process = (\<lambda>F new_file file_type out decompile.
         if basename new_file = ''bad.bin'' then Inl (CollaboratorError ''backend failed'')
         else Inr ([''backend entry''], Some (GzJson sample_record))),
      capa_analyze = (\<lambda>F res file verbose. Inr (JObj [])),
      grep_ext = (\<lambda>F p ext. Inr []),
      m_map = m_map_spec 0\<rparr>"

text \<open>A directory with four binaries: \<open>a.bin\<close> has a cache file for the empty suffix and
  one for the suffix \<open>.v2\<close>, and a regular file stands where the workspace of \<open>c.bin\<close>
  would go.\<close>

definition sample_world :: world where
  "sample_world =
     \<lparr>fs = [''a.bin'' \<mapsto> File (Bytes ''A''),
            ''a.bin.asm.json.gz'' \<mapsto> File (GzJson sample_record),
            ''a.bin.v2.asm.json.gz'' \<mapsto> File (GzJson sample_record),
            ''b.bin'' \<mapsto> File (Bytes ''B''),
            ''bad.bin'' \<mapsto> File (Bytes ''X''),
            ''c.bin'' \<mapsto> File (Bytes ''C''),
            ''c.bin.tmp'' \<mapsto> File (Bytes [])],
      trace = []\<rparr>"

text \<open>A resource kind with a default URL and one for Linux and for macOS, a server whose
  copy is newer than the local file, and a world where the file was downloaded before.\<close>

definition sample_resource :: resource where
  "sample_resource =
     \<lparr>name = ''Ghidra'',
      linux = Some ''http://host/ghidra-linux.zip'',
      windows = None,
      darwin = Some ''http://host/ghidra-mac.zip'',
      default = Some ''http://host/ghidra.zip'',
      unpack = True, check_update = True, with_permission = False\<rparr>"

definition sample_net :: net where
  "sample_net =
     \<lparr>home = ''/home/u/jv-dependencies'',
      online = True,
      system = ''Linux'',
      last_modified = (\<lambda>url. Inr (Some ''Wed, 21 Oct 2015 07:28:00 GMT'')),
      strptime = (\<lambda>t. case t of None \<Rightarrow> Inl (TypeError ''strptime() argument 1 must be str, not None'')
                               | Some s \<Rightarrow> Inr 1445412480000000),
      getmtime = (\<lambda>F p. Inr 1400000000000000),
      fn_from_url = (\<lambda>url. case url of None \<Rightarrow> Inl (AttributeError ''split'')
                                      | Some s \<Rightarrow> Inr (basename s)),
      download_file = (\<lambda>url. Inr (Bytes ''PK'')),
      unpack_archive = (\<lambda>perm c. Inr ())\<rparr>"

definition sample_cache :: world where
  "sample_cache =
     \<lparr>fs = [''/home/u/jv-dependencies/ghidra'' \<mapsto> Dir,
            ''/home/u/jv-dependencies/ghidra/ghidra-linux.zip'' \<mapsto> File (Bytes ''old'')],
      trace = []\<rparr>"



section \<open>Evaluation\<close>

lemmas comp_defs = Let_def ret_def raise_def bind_def lift_def try_except_def try_finally_def
  emit_def bindE_def

lemmas os_defs = os_exists_def parent_ok_def parent_error_def os_mkdir_def copyfile_def rmtree_def os_remove_def
  read_gz_js_def gzip_dump_def makedirs_def basename_def dirname_def join_def

lemmas da_defs = call_process_def call_capa_def cleanup_def workspace_def invoke_def
  set_f_type_def set_cfg_def set_capa_def augment_def load_def disassemble_def

lemmas sample_defs = sample_record_def sample_env_def sample_world_def

section \<open>The CFG derivation\<close>







section \<open>Which events a call can add\<close>

lemma addsI: "(\<And>w. \<exists>evs. trace (snd (m w)) = trace w @ evs \<and> list_all P evs) \<Longrightarrow> adds P m"
  by (simp add: adds_def)

lemma addsD: "adds P m \<Longrightarrow> \<exists>evs. trace (snd (m w)) = trace w @ evs \<and> list_all P evs"
  by (simp add: adds_def)

lemma adds_same: "(\<And>w. trace (snd (m w)) = trace w) \<Longrightarrow> adds P m"
  by (rule addsI) simp

lemma adds_ret: "adds P (ret x)"
  by (rule adds_same) (simp add: ret_def)

lemma adds_raise: "adds P (raise e)"
  by (rule adds_same) (simp add: raise_def)

lemma adds_lift: "adds P (lift r)"
  by (rule adds_same) (simp add: lift_def)

lemma adds_read: "adds P (\<lambda>w. (f w, w))"
  by (rule adds_same) simp

lemma adds_emit: "P ev \<Longrightarrow> adds P (emit ev)"
  by (rule addsI) (simp add: emit_def)

lemma adds_bind:
  assumes m: "adds P m" and f: "\<And>x. adds P (f x)"
  shows "adds P (bind m f)"
proof (rule addsI)
  fix w
  obtain r w1 where mw: "m w = (r, w1)" by (cases "m w")
  from addsD [OF m, of w] mw obtain e1 where e1: "trace w1 = trace w @ e1" "list_all P e1"
    by auto
  show "\<exists>evs. trace (snd (bind m f w)) = trace w @ evs \<and> list_all P evs"
  proof (cases r)
    case (Inl e)
    then show ?thesis using mw e1 by (simp add: bind_def)
  next
    case (Inr x)
    from addsD [OF f, of x w1]
    obtain e2 where e2: "trace (snd (f x w1)) = trace w1 @ e2" "list_all P e2"
      by auto
    have "trace (snd (bind m f w)) = trace w @ (e1 @ e2)"
      using mw Inr e1 e2 by (simp add: bind_def)
    moreover have "list_all P (e1 @ e2)" using e1 e2 by simp
    ultimately show ?thesis by blast
  qed
qed

lemma adds_try_except:
  assumes m: "adds P m" and h: "\<And>e. adds P (h e)"
  shows "adds P (try_except m h)"
proof (rule addsI)
  fix w
  obtain r w1 where mw: "m w = (r, w1)" by (cases "m w")
  from addsD [OF m, of w] mw obtain e1 where e1: "trace w1 = trace w @ e1" "list_all P e1"
    by auto
  show "\<exists>evs. trace (snd (try_except m h w)) = trace w @ evs \<and> list_all P evs"
  proof (cases r)
    case (Inr x)
    then show ?thesis using mw e1 by (simp add: try_except_def)
  next
    case (Inl e)
    from addsD [OF h, of e w1]
    obtain e2 where e2: "trace (snd (h e w1)) = trace w1 @ e2" "list_all P e2"
      by auto
    have "trace (snd (try_except m h w)) = trace w @ (e1 @ e2)"
      using mw Inl e1 e2 by (simp add: try_except_def)
    moreover have "list_all P (e1 @ e2)" using e1 e2 by simp
    ultimately show ?thesis by blast
  qed
qed

lemma adds_try_finally:
  assumes m: "adds P m" and c: "adds P c"
  shows "adds P (try_finally m c)"
proof (rule addsI)
  fix w
  obtain r w1 where mw: "m w = (r, w1)" by (cases "m w")
  from addsD [OF m, of w] mw obtain e1 where e1: "trace w1 = trace w @ e1" "list_all P e1"
    by auto
  obtain r2 w2 where cw: "c w1 = (r2, w2)" by (cases "c w1")
  from addsD [OF c, of w1] cw obtain e2 where e2: "trace w2 = trace w1 @ e2" "list_all P e2"
    by auto
  have "trace (snd (try_finally m c w)) = trace w @ (e1 @ e2)"
    using mw cw e1 e2 by (cases r2) (simp_all add: try_finally_def)
  moreover have "list_all P (e1 @ e2)" using e1 e2 by simp
  ultimately show "\<exists>evs. trace (snd (try_finally m c w)) = trace w @ evs \<and> list_all P evs"
    by blast
qed

lemma adds_if:
  assumes "adds P m" and "adds P n"
  shows "adds P (\<lambda>w. if c w then m w else n w)"
  using assms by (simp add: adds_def)

lemma adds_os_remove: "P (Removed p) \<Longrightarrow> adds P (os_remove p)"
  by (rule addsI) (simp add: os_remove_def split: option.splits node.splits)


lemma adds_read_gz_js: "adds P (read_gz_js p)"
  by (rule adds_same) (simp add: read_gz_js_def split: option.splits node.splits content.splits)

lemma adds_gzip_dump: "P (Dumped p res) \<Longrightarrow> adds P (gzip_dump p res)"
  by (rule addsI) (simp add: gzip_dump_def split: option.splits node.splits)


lemma adds_cleanup: "P (Removed (file @ ''.asm.json.gz'')) \<Longrightarrow> adds P (cleanup file)"
  unfolding cleanup_def Let_def
  by (intro adds_if adds_os_remove adds_read)

lemma adds_call_capa: "P (Analyzed file verbose) \<Longrightarrow> adds P (call_capa E res file verbose)"
  unfolding call_capa_def by (intro adds_bind adds_emit adds_read)

lemma adds_set_capa: "P (Analyzed file verbose) \<Longrightarrow> adds P (set_capa E capa file verbose rc)"
  unfolding set_capa_def
  by (auto intro!: adds_bind adds_lift adds_ret adds_call_capa)

lemma adds_augment:
  assumes "P (Analyzed file verbose)" and "\<And>res. P (Dumped js_file res)"
  shows "adds P (augment E file cfg no_result file_type capa verbose js_file log)"
  unfolding augment_def using assms
  by (auto intro!: adds_bind adds_lift adds_ret adds_set_capa adds_read_gz_js adds_gzip_dump)

lemma adds_load:
  assumes "P (Analyzed file verbose)" and "\<And>res. P (Dumped js_file res)"
    and "\<And>l. P (Printed l)" and "P (Removed (file @ ''.asm.json.gz''))"
  shows "adds P (load E file cleanup_flag cfg no_result file_type capa verbose js_file log)"
  unfolding load_def Let_def using assms
  by (auto intro!: adds_try_finally adds_try_except adds_augment adds_bind adds_emit adds_raise
        adds_ret adds_cleanup)

section \<open>The cache file as the sentinel\<close>

text \<open>
  C2. When the cache file \<open>file + additional_ext + ".asm.json.gz"\<close> exists at the call,
  \<^verbatim>\<open>disassemble\<close> adds no invocation of the backend to the trace, whatever the path holds
  (a record, bytes that are no record, a directory) and whatever the flags are.
\<close>

theorem existing_cache_skips_backend:
  assumes ex: "os_exists w (file @ additional_ext @ ''.asm.json.gz'')"
  shows "filter is_invoked (new_events w (snd (disassemble E file decompile cleanup_flag cfg
           no_result file_type capa verbose additional_ext w))) = []"
proof -
  let ?js = "file @ additional_ext @ ''.asm.json.gz''"
  let ?P = "\<lambda>ev. \<not> is_invoked ev"
  have quiet: "\<And>ft. adds ?P (load E file cleanup_flag cfg no_result ft capa verbose ?js
                  [''directly reading the generated json file''])"
    by (rule adds_load) simp_all
  have none: "filter is_invoked (new_events w (snd (m w))) = []"
    if "adds ?P m" for m :: "(result \<times> string list) comp"
  proof -
    from addsD [OF that, of w]
    obtain evs where "trace (snd (m w)) = trace w @ evs" "list_all ?P evs"
      by auto
    then show ?thesis by (simp add: new_events_def list_all_iff)
  qed
  have as_load:
    "disassemble E file decompile cleanup_flag cfg no_result file_type capa verbose additional_ext w
      = (case (case file_type of None \<Rightarrow> get_file_type E (fs w) file
                | Some t \<Rightarrow> if t \<noteq> [] then Inr t else get_file_type E (fs w) file) of
           Inl e \<Rightarrow> (Inl e, w)
         | Inr ft \<Rightarrow> load E file cleanup_flag cfg no_result ft capa verbose ?js
                     [''directly reading the generated json file''] w)"
    using ex by (simp add: disassemble_def Let_def bind_def ret_def split: option.splits sum.splits)
  show ?thesis
    unfolding as_load using none [OF quiet]
    by (simp add: new_events_def split: sum.splits option.splits)
qed

theorem existing_cache_skips_backend_witness:
  "os_exists sample_world (''a.bin'' @ ''.v2'' @ ''.asm.json.gz'')
   \<and> filter is_invoked (new_events sample_world (snd (disassemble sample_env ''a.bin'' False False
         True False None True 0 ''.v2'' sample_world))) = []"
  using existing_cache_skips_backend [of sample_world "''a.bin''" "''.v2''" sample_env False False
      True False None True 0]
  by (simp add: os_exists_def sample_world_def)

section \<open>The update check of the resource cache\<close>


















section \<open>Pre-fetching into a cache root\<close>














section \<open>The registry\<close>

lemmas batch_defs = report_def gen_mp_def map_without_fn_def quoted_def disassemble_all_def

text \<open>
  C4, as stated, fails: for a name that no resource kind carries, \<^verbatim>\<open>require\<close> raises
  nothing. It returns \<open>None\<close> and leaves the world as it was.
\<close>

theorem require_unknown_returns_none:
  "require sample_net [sample_resource] ''ida'' sample_cache = (Inr None, sample_cache)"
  by (simp add: ret_def lower_def lower_char_def sample_resource_def)

text \<open>
  C4, amended. \<^verbatim>\<open>require(name)\<close> compares the lower-cased name with the lower-cased class
  name of each resource kind, in the order \<^verbatim>\<open>__subclasses__()\<close> lists them. When none
  matches it returns \<open>None\<close>, without an exception and without any effect; otherwise it
  instantiates the first kind that matches and returns the result of its \<^verbatim>\<open>get()\<close>.
\<close>

theorem require_is_first_match:
  "require N reg library =
     (case find (\<lambda>res. lower (name res) = lower library) reg of
        None \<Rightarrow> ret None
      | Some res \<Rightarrow> bind (get N res) (\<lambda>p. ret (Some p)))"
  by (induction reg) simp_all

section \<open>Where the orchestrator departs from its specification\<close>

subsection \<open>The \<open>f_type\<close> test reads the wrong dict\<close>

text \<open>Line 70 looks for the key \<open>f_type\<close> in the record itself, line 71 sets it inside
  \<open>bin\<close>: for a record with \<open>f_type\<close> on its binary metadata only, the test never finds it.\<close>

lemma set_f_type_nested:
  "map_of kvs ''f_type'' = None \<Longrightarrow> map_of kvs ''bin'' = Some (JObj b) \<Longrightarrow>
   set_f_type (JObj kvs) t = Inr (JObj (upd ''bin'' (JObj (upd ''f_type'' (JStr t) b)) kvs), True)"
  by (simp add: set_f_type_def bindE_def)

text \<open>
  C1. The cache file of \<open>a.bin\<close> exists and its record has \<open>f_type\<close> on the binary
  metadata; neither \<open>cfg\<close> nor \<open>capa\<close> is requested. The call still marks the record as
  changed and writes the cache file again; called with another \<open>file_type\<close>, it replaces
  the stored \<open>f_type\<close>, so the file does not keep its content.
\<close>

theorem cache_hit_rewrites_cache_file:
  "fs sample_world ''a.bin.asm.json.gz'' = Some (File (GzJson sample_record))
   \<and> sample_record = JObj [(''bin'', JObj [(''f_type'', JStr ''elf'')]), (''blocks'', JList [])]
   \<and> set_f_type sample_record ''elf'' = Inr (sample_record, True)
   \<and> new_events sample_world
        (snd (disassemble sample_env ''a.bin'' False False False False None False (- 1) []
               sample_world))
      = [Dumped ''a.bin.asm.json.gz'' sample_record]
   \<and> fs (snd (disassemble sample_env ''a.bin'' False False False False (Some ''pe'') False (- 1) []
               sample_world)) ''a.bin.asm.json.gz''
      = Some (File (GzJson (JObj [(''bin'', JObj [(''f_type'', JStr ''pe'')]),
                                   (''blocks'', JList [])])))"
  by (simp add: comp_defs os_defs da_defs sample_defs new_events_def)

subsection \<open>\<^verbatim>\<open>cleanup\<close> ignores the suffix\<close>

text \<open>\<^verbatim>\<open>cleanup(file)\<close> touches one path, \<open>file + ".asm.json.gz"\<close>: with a non-empty
  suffix the cache file of the call is another path.\<close>

lemma cleanup_frame: "p \<noteq> file @ ''.asm.json.gz'' \<Longrightarrow> fs (snd (cleanup file w)) p = fs w p"
  by (simp add: cleanup_def Let_def os_exists_def os_remove_def split: option.splits node.splits)

text \<open>
  C3. \<open>a.bin\<close> has a cache file for the suffix \<open>.v2\<close>. After
  \<^verbatim>\<open>disassemble(file, cleanup=True, additional_ext='.v2')\<close> has returned the record, that
  cache file is still there: \<^verbatim>\<open>cleanup(file)\<close> removes \<open>file + ".asm.json.gz"\<close>, the cache
  file of the empty suffix, which is gone instead. The input file is as before.
\<close>

theorem cleanup_misses_suffixed_cache_file:
  "fst (disassemble sample_env ''a.bin'' False True False False None False (- 1) ''.v2''
         sample_world)
     = Inr (RRecord sample_record, [''directly reading the generated json file''])
   \<and> os_exists (snd (disassemble sample_env ''a.bin'' False True False False None False (- 1) ''.v2''
                      sample_world)) ''a.bin.v2.asm.json.gz''
   \<and> \<not> os_exists (snd (disassemble sample_env ''a.bin'' False True False False None False (- 1)
                      ''.v2'' sample_world)) ''a.bin.asm.json.gz''
   \<and> fs (snd (disassemble sample_env ''a.bin'' False True False False None False (- 1) ''.v2''
               sample_world)) ''a.bin'' = fs sample_world ''a.bin''"
  by (simp add: comp_defs os_defs da_defs sample_defs)

subsection \<open>The workspace is removed outside any handler\<close>

text \<open>The second \<^verbatim>\<open>try\<close> statement keeps its promise: below the verbosity threshold it
  returns, whatever happens while the record is read and augmented, and its guarded
  cleanup never raises.\<close>

lemma guarded_cleanup_returns:
  "\<exists>w'. try_except (if cleanup_flag then cleanup file else ret ()) (\<lambda>e. ret ()) w = (Inr (), w')"
  by (cases "cleanup file w"; cases "fst (cleanup file w)")
     (auto simp: try_except_def ret_def)

lemma load_contains_errors:
  assumes "verbose \<le> 1"
  shows "\<exists>r w'. load E file cleanup_flag cfg no_result file_type capa verbose js_file log w
           = (Inr r, w')"
proof -
  let ?body = "try_except (augment E file cfg no_result file_type capa verbose js_file log)
      (\<lambda>e. let log' = log @ [''Failed '' @ file @ '' msg: '' @ str_of e]
            in if verbose > 1 then bind (emit (Printed log')) (\<lambda>u. raise e)
               else ret (RNone, log'))"
  obtain r w1 where b: "?body w = (Inr r, w1)"
    using assms
    by (cases "augment E file cfg no_result file_type capa verbose js_file log w";
        cases "fst (augment E file cfg no_result file_type capa verbose js_file log w)")
       (auto simp: try_except_def ret_def Let_def)
  from guarded_cleanup_returns [of cleanup_flag "file" w1]
  obtain w2
    where c: "try_except (if cleanup_flag then cleanup file else ret ()) (\<lambda>e. ret ()) w1 = (Inr (), w2)" ..
  show ?thesis
    unfolding load_def try_finally_def using b c by simp
qed

text \<open>The first one does not: when \<^verbatim>\<open>os.mkdir\<close> fails and leaves no directory at the
  workspace path, \<^verbatim>\<open>rmtree\<close> raises in the \<^verbatim>\<open>finally\<close> block, at every verbosity.\<close>

lemma invoke_raises_when_mkdir_fails:
  assumes "is_regular w (file @ additional_ext @ ''.tmp'')
         \<or> fs w (file @ additional_ext @ ''.tmp'') = None
           \<and> \<not> parent_ok (fs w) (file @ additional_ext @ ''.tmp'')"
  shows "\<exists>e. fst (invoke E file file_type decompile verbose additional_ext js_file log w) = Inl e"
  using assms
  by (auto simp: invoke_def workspace_def comp_defs os_mkdir_def rmtree_def is_regular_def
      split: option.splits node.splits)

text \<open>
  C7. With the default \<open>verbose = -1\<close>: a regular file stands at \<open>c.bin.tmp\<close>, so
  \<^verbatim>\<open>os.mkdir\<close> raises FileExistsError; the handler logs it and returns \<open>(None, log)\<close>, and
  then \<^verbatim>\<open>rmtree\<close> of the \<^verbatim>\<open>finally\<close> block raises NotADirectoryError, which reaches the
  caller. Likewise for \<open>d/e.bin\<close>, whose directory does not exist: \<^verbatim>\<open>os.mkdir\<close> raises
  FileNotFoundError, and so does \<^verbatim>\<open>rmtree\<close>. In both calls an exception of the workspace
  ends in an exception of \<^verbatim>\<open>disassemble\<close>, not in \<open>(None, log)\<close>.
\<close>

theorem workspace_failure_propagates:
  "fst (disassemble sample_env ''c.bin'' False False False False None False (- 1) [] sample_world)
     = Inl (NotADirectoryError ''c.bin.tmp'')
   \<and> fst (disassemble sample_env ''d/e.bin'' False False False False (Some ''pe'') False (- 1) []
            sample_world)
     = Inl (FileNotFoundError ''d/e.bin.tmp'')"
  by (simp add: comp_defs os_defs da_defs sample_defs)

subsection \<open>The multiprocessing driver ends in \<^verbatim>\<open>e.map()\<close>\<close>

lemma report_all_returns: "\<exists>w'. report_all items w = (Inr (), w')"
  by (induction items arbitrary: w) (auto simp: report_def comp_defs)

text \<open>Whatever \<^verbatim>\<open>m_map\<close> does, the multiprocessing branch of the generator ends with an
  exception: that of \<^verbatim>\<open>m_map\<close>, or the TypeError of \<^verbatim>\<open>e.map()\<close>.\<close>

lemma gen_mp_raises: "\<exists>e. fst (gen_mp E decompile cleanup_flag cfg capa verbose files w) = Inl e"
proof -
  obtain items err w1
    where m: "m_map E (\<lambda>f. disassemble E f decompile cleanup_flag cfg True None capa verbose [])
                files w = ((items, err), w1)"
    by (metis surj_pair)
  from report_all_returns [of items w1] obtain w2 where r: "report_all items w1 = (Inr (), w2)" ..
  show ?thesis
    by (cases err) (simp_all add: gen_mp_def m r bind_def raise_def)
qed

text \<open>
  C8. The backend throws on \<open>bad.bin\<close> and succeeds on \<open>b.bin\<close>; verbosity is the default.
  With \<open>multiprocessing=True\<close> both files are processed and the log of \<open>bad.bin\<close> is
  printed, and then \<^verbatim>\<open>disassemble_all\<close> raises the TypeError of \<^verbatim>\<open>e.map()\<close>. With
  \<open>multiprocessing=False\<close> it returns.
\<close>

theorem multiprocessing_batch_raises:
  "fst (disassemble_all sample_env (Files [''bad.bin'', ''b.bin'']) True False False False ''.bin''
         False (- 1) sample_world)
     = Inl (TypeError (''ProcessPoolExecutor.map() missing 1 required positional argument: ''
                       @ quoted ''fn''))
   \<and> trace (snd (disassemble_all sample_env (Files [''bad.bin'', ''b.bin'']) True False False False
                   ''.bin'' False (- 1) sample_world))
     = [Invoked ''bad.bin.tmp/bad.bin'' ''elf'' ''bad.bin.tmp/bad.bin.asm.json.gz'' False,
        Removed ''bad.bin.tmp'',
        Invoked ''b.bin.tmp/b.bin'' ''elf'' ''b.bin.tmp/b.bin.asm.json.gz'' False,
        Removed ''b.bin.tmp'',
        Dumped ''b.bin.asm.json.gz'' sample_record,
        Printed [''backend failed'']]
   \<and> fst (disassemble_all sample_env (Files [''bad.bin'', ''b.bin'']) False False False False
            ''.bin'' False (- 1) sample_world)
     = Inr ()"
  by (simp add: comp_defs os_defs da_defs sample_defs batch_defs)

subsection \<open>The backend's log entries are dropped\<close>

text \<open>Line 55 extends \<open>log\<close> by \<open>log\<close>; \<open>out_log\<close> is not used again. From the empty log of
  a cache miss the workspace hands on the empty log.\<close>

lemma workspace_log:
  "workspace E file file_type decompile js_file tmp_folder [] w = (Inr l, w') \<Longrightarrow> l = []"
  by (auto simp: workspace_def call_process_def comp_defs os_mkdir_def copyfile_def
      split: if_splits option.splits node.splits sum.splits prod.splits)

text \<open>
  C9. \<open>b.bin\<close> has no cache file and the backend succeeds, returning the log entry
  \<open>backend entry\<close>. \<^verbatim>\<open>disassemble\<close> returns the record with an empty log.
\<close>

theorem backend_log_is_dropped:
  "\<not> os_exists sample_world ''b.bin.asm.json.gz''
   \<and> u_process sample_env (fs sample_world) ''b.bin.tmp/b.bin'' ''elf''
        ''b.bin.tmp/b.bin.asm.json.gz'' False
      = Inr ([''backend entry''], Some (GzJson sample_record))
   \<and> fst (disassemble sample_env ''b.bin'' False False False False None False (- 1) [] sample_world)
      = Inr (RRecord sample_record, [])"
  by (simp add: comp_defs os_defs da_defs sample_defs)

end
